theory Spec2Isabelle
  imports
    Complex_Main
    "HOL-Library.AList"
    "HOL-Library.Char_ord"
    "HOL-Library.List_Lexorder"
    "HOL-Library.Product_Lexorder"
    "HOL-Library.Multiset"
begin

section \<open>Python values, dictionaries and exceptions\<close>

text \<open>
  The matching engine works on loosely typed dictionaries. A value is \<open>None\<close>, a number
  (Python's \<open>int\<close>, \<open>float\<close> and \<open>bool\<close>, read as a real: the arithmetic of the scores is
  modelled exactly, without floating-point rounding), a string or a list of values.
  Strings are lists of 8-bit characters; the case mapping and the whitespace of the model
  are those of ASCII.
\<close>

datatype pyval = PNone | PNum real | PStr string | PList "pyval list"

datatype error = TypeError | AttributeError | KeyError | LibraryError

type_synonym pydict = "string \<Rightarrow> pyval option"

text \<open>\<open>d.get(k, dflt)\<close>; \<open>d.get(k)\<close> is \<open>dict_get d k PNone\<close>.\<close>

definition dict_get :: "pydict \<Rightarrow> string \<Rightarrow> pyval \<Rightarrow> pyval" where
  "dict_get d k dflt = (case d k of None \<Rightarrow> dflt | Some v \<Rightarrow> v)"

text \<open>Truth value of a Python object, as \<open>not\<close>, \<open>or\<close> and \<open>if\<close> test it.\<close>

fun truthy :: "pyval \<Rightarrow> bool" where
  "truthy PNone = False"
| "truthy (PNum x) = (x \<noteq> 0)"
| "truthy (PStr s) = (s \<noteq> [])"
| "truthy (PList xs) = (xs \<noteq> [])"

text \<open>\<open>a or b\<close>: the first operand when it is true, else the second.\<close>

definition py_or :: "pyval \<Rightarrow> pyval \<Rightarrow> pyval" where
  "py_or a b = (if truthy a then a else b)"

text \<open>Iterating a value: a list gives its elements, a string its characters, anything
  else raises \<open>TypeError\<close>.\<close>

fun py_iter :: "pyval \<Rightarrow> error + pyval list" where
  "py_iter (PList xs) = Inr xs"
| "py_iter (PStr s) = Inr (map (\<lambda>c. PStr [c]) s)"
| "py_iter PNone = Inl TypeError"
| "py_iter (PNum x) = Inl TypeError"

text \<open>\<open>len(v)\<close>.\<close>

fun py_len :: "pyval \<Rightarrow> error + nat" where
  "py_len (PList xs) = Inr (length xs)"
| "py_len (PStr s) = Inr (length s)"
| "py_len PNone = Inl TypeError"
| "py_len (PNum x) = Inl TypeError"

text \<open>Sequencing of computations that may raise.\<close>

definition bind_err :: "error + 'a \<Rightarrow> ('a \<Rightarrow> error + 'b) \<Rightarrow> error + 'b" where
  "bind_err r f = (case r of Inl e \<Rightarrow> Inl e | Inr x \<Rightarrow> f x)"

text \<open>
  The comparison \<open>a < b\<close>. Numbers compare with numbers, strings with strings
  (lexicographically by character code), lists with lists (the first pair of unequal
  elements decides, else the lengths); every other pair raises \<open>TypeError\<close>.
\<close>

fun py_lt :: "pyval \<Rightarrow> pyval \<Rightarrow> error + bool"
  and list_lt :: "pyval list \<Rightarrow> pyval list \<Rightarrow> error + bool" where
  "py_lt (PNum a) (PNum b) = Inr (a < b)"
| "py_lt (PStr a) (PStr b) = Inr (a < b)"
| "py_lt (PList xs) (PList ys) = list_lt xs ys"
| "py_lt _ _ = Inl TypeError"
| "list_lt [] [] = Inr False"
| "list_lt [] (y # ys) = Inr True"
| "list_lt (x # xs) [] = Inr False"
| "list_lt (x # xs) (y # ys) = (if x = y then list_lt xs ys else py_lt x y)"

text \<open>\<open>a > b\<close> is \<open>b < a\<close> on these values.\<close>

definition py_gt :: "pyval \<Rightarrow> pyval \<Rightarrow> error + bool" where
  "py_gt a b = py_lt b a"

text \<open>\<open>a - b\<close>: defined on numbers only.\<close>

fun py_sub :: "pyval \<Rightarrow> pyval \<Rightarrow> error + real" where
  "py_sub (PNum a) (PNum b) = Inr (a - b)"
| "py_sub _ _ = Inl TypeError"

section \<open>Skill normalisation\<close>

definition lower_char :: "char \<Rightarrow> char" where
  "lower_char c =
     (case map_of (zip ''ABCDEFGHIJKLMNOPQRSTUVWXYZ'' ''abcdefghijklmnopqrstuvwxyz'') c of
        Some l \<Rightarrow> l
      | None \<Rightarrow> c)"

definition lower :: "string \<Rightarrow> string" where
  "lower s = map lower_char s"

text \<open>The ASCII characters that \<open>str.strip()\<close> removes: codes 9 to 13, 28 to 31 and 32.\<close>

definition is_space :: "char \<Rightarrow> bool" where
  "is_space c =
     (c \<in> set [CHR 0x09, CHR 0x0A, CHR 0x0B, CHR 0x0C, CHR 0x0D,
                CHR 0x1C, CHR 0x1D, CHR 0x1E, CHR 0x1F, CHR 0x20])"

definition strip :: "string \<Rightarrow> string" where
  "strip s = rev (dropWhile is_space (rev (dropWhile is_space s)))"

text \<open>\<open>s.replace(c, '')\<close> for a one-character pattern.\<close>

definition remove_char :: "char \<Rightarrow> string \<Rightarrow> string" where
  "remove_char c s = filter (\<lambda>x. x \<noteq> c) s"

definition normalize_skill :: "string \<Rightarrow> string" where
  "normalize_skill skill =
     remove_char (CHR ''_'') (remove_char (CHR ''-'') (remove_char (CHR '' '')
       (remove_char (CHR ''.'') (strip (lower skill)))))"

section \<open>The matching engine\<close>

text \<open>The dataclass \<open>Match\<close>. A reason is kept as the data its display string is
  formatted from; \<open>target_id\<close> holds the identifier that \<open>str\<close> is applied to.\<close>

datatype reason =
    SkillsMatched nat nat
  | StrongSkillMatch
  | RoleFit "string list"
  | BonusSkills nat
  | ProfileSimilarity real

record Match =
  target_id :: pyval
  score :: real
  reasons :: "reason list"
  shared_skills :: "string list"
  complementary_skills :: "string list"

text \<open>The table \<open>self.WEIGHTS\<close>, read only at its six literal keys.\<close>

record weights =
  skill_overlap :: real
  embedding_similarity :: real
  role_match :: real
  experience_fit :: real
  hackathon_bonus :: real
  availability :: real

definition WEIGHTS :: weights where
  "WEIGHTS = \<lparr> skill_overlap = 0.45, embedding_similarity = 0.25, role_match = 0.15,
               experience_fit = 0.06, hackathon_bonus = 0.05, availability = 0.04 \<rparr>"

text \<open>The weights that \<open>match_user_to_project\<close> multiplies sub-scores with, in the order
  of its weighted sum.\<close>

definition combined_weights :: "real list" where
  "combined_weights =
     [skill_overlap WEIGHTS, embedding_similarity WEIGHTS, role_match WEIGHTS,
      experience_fit WEIGHTS, availability WEIGHTS]"

text \<open>The embedding engine's \<open>cosine_similarity\<close> ends in a library call; the engine is
  given by that function, which may raise.\<close>

type_synonym cosine = "pyval \<Rightarrow> pyval \<Rightarrow> error + real"

definition calculate_embedding_score :: "cosine \<Rightarrow> pyval \<Rightarrow> pyval \<Rightarrow> real" where
  "calculate_embedding_score cosine_similarity emb1 emb2 =
     (if emb1 = PNone \<or> emb2 = PNone then 0
      else (case cosine_similarity emb1 emb2 of Inr x \<Rightarrow> x | Inl e \<Rightarrow> 0))"

text \<open>\<open>r.lower()\<close> for each element in turn; an element that is no string has no
  \<open>lower\<close>.\<close>

fun lower_all :: "pyval list \<Rightarrow> error + string list" where
  "lower_all [] = Inr []"
| "lower_all (PStr s # vs) = bind_err (lower_all vs) (\<lambda>ls. Inr (lower s # ls))"
| "lower_all (_ # vs) = Inl AttributeError"

text \<open>\<open>matched\<close> is \<open>list(user_set & req_set)\<close>; Python leaves the order of that list
  open, the model lists it in increasing order.\<close>

definition calculate_role_match :: "pyval \<Rightarrow> pyval \<Rightarrow> error + (real \<times> string list)" where
  "calculate_role_match user_roles required_roles =
     (if \<not> truthy required_roles then Inr (1, [])
      else
        bind_err (py_iter (py_or user_roles (PList []))) (\<lambda>us.
        bind_err (lower_all us) (\<lambda>ul.
        bind_err (py_iter required_roles) (\<lambda>rs.
        bind_err (lower_all rs) (\<lambda>rl.
          let user_set = set ul;
              req_set = set rl;
              matched = sorted_list_of_set (user_set \<inter> req_set);
              ratio = (if req_set \<noteq> {} then real (length matched) / real (card req_set)
                       else 0)
          in Inr (ratio, matched))))))"

text \<open>The dict comprehension \<open>{normalize_skill(s): s for s in xs}\<close>: a key seen again keeps
  its place and takes the later spelling.\<close>

fun norm_dict :: "(string \<times> string) list \<Rightarrow> pyval list \<Rightarrow> error + (string \<times> string) list" where
  "norm_dict d [] = Inr d"
| "norm_dict d (PStr s # vs) = norm_dict (AList.update (normalize_skill s) s d) vs"
| "norm_dict d (_ # vs) = Inl AttributeError"

text \<open>\<open>[d[k] for k in ks]\<close>.\<close>

fun lookup_all :: "('k \<times> 'v) list \<Rightarrow> 'k list \<Rightarrow> error + 'v list" where
  "lookup_all d [] = Inr []"
| "lookup_all d (k # ks) =
     (case map_of d k of
        None \<Rightarrow> Inl KeyError
      | Some v \<Rightarrow> bind_err (lookup_all d ks) (\<lambda>vs. Inr (v # vs)))"

definition calculate_skill_overlap ::
    "pyval \<Rightarrow> pyval \<Rightarrow> error + (real \<times> string list \<times> string list)" where
  "calculate_skill_overlap user_skills required_skills =
     (if \<not> truthy required_skills then Inr (0.5, [], [])
      else
        bind_err (py_iter (py_or user_skills (PList []))) (\<lambda>us.
        bind_err (norm_dict [] us) (\<lambda>user_normalized.
        bind_err (py_iter (py_or required_skills (PList []))) (\<lambda>rs.
        bind_err (norm_dict [] rs) (\<lambda>req_normalized.
          let user_keys = set (map fst user_normalized);
              req_keys = set (map fst req_normalized);
              shared_keys = user_keys \<inter> req_keys;
              comp_keys = req_keys - user_keys
          in
          bind_err (lookup_all req_normalized (sorted_list_of_set shared_keys)) (\<lambda>shared.
          bind_err (lookup_all req_normalized (sorted_list_of_set comp_keys)) (\<lambda>complementary.
            let overlap_ratio =
                  (if req_normalized \<noteq> []
                   then real (card shared_keys) / real (length req_normalized) else 0);
                user_only_keys = user_keys - req_keys;
                complementary_bonus = min (real (card user_only_keys) * 0.05) 0.2;
                score = min (overlap_ratio + complementary_bonus) 1
            in Inr (score, shared, complementary))))))))"

definition calculate_experience_fit :: "pyval \<Rightarrow> pyval \<Rightarrow> pyval \<Rightarrow> error + real" where
  "calculate_experience_fit user_exp required_exp_min required_exp_max =
     bind_err (py_lt user_exp required_exp_min) (\<lambda>under.
       if under then
         bind_err (py_sub required_exp_min user_exp) (\<lambda>gap. Inr (max 0.5 (1 - gap * 0.15)))
       else
         bind_err (py_gt user_exp required_exp_max) (\<lambda>over.
           if over then
             bind_err (py_sub user_exp required_exp_max) (\<lambda>gap. Inr (max 0.7 (1 - gap * 0.05)))
           else Inr 1))"

definition calculate_availability_score :: "pyval \<Rightarrow> pyval \<Rightarrow> real" where
  "calculate_availability_score user_tz project_tz =
     (if \<not> truthy user_tz \<or> \<not> truthy project_tz then 1
      else if user_tz = project_tz then 1 else 0.8)"

text \<open>The reasons, in the order the source appends them.\<close>

definition build_reasons ::
    "nat \<Rightarrow> nat \<Rightarrow> string list \<Rightarrow> string list \<Rightarrow> real \<Rightarrow> reason list" where
  "build_reasons shared_count required_count matched_roles complementary emb_score =
     (if shared_count > 0 then [SkillsMatched shared_count required_count] else [])
     @ (if required_count > 0
           \<and> shared_count \<ge> max 1 (nat \<lfloor>real required_count * 0.8\<rfloor>)
        then [StrongSkillMatch] else [])
     @ (if matched_roles \<noteq> [] then [RoleFit matched_roles] else [])
     @ (if complementary \<noteq> [] \<and> length complementary \<ge> 3
        then [BonusSkills (length complementary)] else [])
     @ (if emb_score > 0.7 then [ProfileSimilarity emb_score] else [])"

text \<open>The weighted sum of the five sub-scores, the additive boost for shared skills and
  the clamp.\<close>

definition final_score :: "real \<Rightarrow> real \<Rightarrow> real \<Rightarrow> real \<Rightarrow> real \<Rightarrow> nat \<Rightarrow> real" where
  "final_score skill_score emb_score role_score exp_score avail_score shared_count =
     (let weighted =
              skill_score * skill_overlap WEIGHTS
            + emb_score * embedding_similarity WEIGHTS
            + role_score * role_match WEIGHTS
            + exp_score * experience_fit WEIGHTS
            + avail_score * availability WEIGHTS;
          boosted = weighted + min (real shared_count * 0.02) 0.12
      in max 0 (min 1 boosted))"

text \<open>The project's skills: \<open>skills\<close>, else \<open>required_skills\<close>, else the empty list; and
  its roles: \<open>required_roles\<close>, else \<open>roles\<close>.\<close>

definition project_skills :: "pydict \<Rightarrow> pyval" where
  "project_skills project_data =
     py_or (py_or (dict_get project_data ''skills'' PNone)
                  (dict_get project_data ''required_skills'' (PList [])))
           (PList [])"

definition project_roles :: "pydict \<Rightarrow> pyval" where
  "project_roles project_data =
     py_or (dict_get project_data ''required_roles'' (PList []))
           (dict_get project_data ''roles'' (PList []))"

definition match_user_to_project :: "cosine \<Rightarrow> pydict \<Rightarrow> pydict \<Rightarrow> error + Match" where
  "match_user_to_project cosine_similarity user_data project_data =
     (let proj_skills = project_skills project_data;
          user_skills = py_or (dict_get user_data ''skills'' (PList [])) (PList [])
      in
      bind_err (calculate_skill_overlap user_skills proj_skills)
        (\<lambda>(skill_score, shared, complementary).
      let emb_score =
            (if dict_get user_data ''embedding'' PNone \<noteq> PNone
                \<and> dict_get project_data ''embedding'' PNone \<noteq> PNone
             then calculate_embedding_score cosine_similarity
                    (dict_get user_data ''embedding'' PNone)
                    (dict_get project_data ''embedding'' PNone)
             else 0)
      in
      bind_err (calculate_role_match
                  (dict_get user_data ''roles'' (PList []))
                  (project_roles project_data))
        (\<lambda>(role_score, matched_roles).
      bind_err (calculate_experience_fit
                  (dict_get user_data ''experience_years'' (PNum 0))
                  (dict_get project_data ''min_experience'' (PNum 0))
                  (dict_get project_data ''max_experience'' (PNum 10)))
        (\<lambda>exp_score.
      let avail_score =
            calculate_availability_score
              (dict_get user_data ''timezone'' (PStr []))
              (dict_get project_data ''timezone'' (PStr []))
      in
      bind_err (py_len proj_skills) (\<lambda>required_count.
        Inr \<lparr> target_id = dict_get project_data ''id'' (PStr ''unknown''),
              score = final_score skill_score emb_score role_score exp_score avail_score
                        (length shared),
              reasons = build_reasons (length shared) required_count matched_roles
                          complementary emb_score,
              shared_skills = shared,
              complementary_skills = complementary \<rparr>)))))"

section \<open>Ranking\<close>

text \<open>\<open>try: body except Exception as e: handler\<close>.\<close>

definition try_except :: "error + 'a \<Rightarrow> (error \<Rightarrow> error + 'a) \<Rightarrow> error + 'a" where
  "try_except body handler = (case body of Inr x \<Rightarrow> Inr x | Inl e \<Rightarrow> handler e)"

text \<open>The loop of \<open>rank_candidates\<close>; the handler logs the error and goes on with the
  next candidate.\<close>

fun rank_loop :: "cosine \<Rightarrow> pydict \<Rightarrow> pydict list \<Rightarrow> Match list \<Rightarrow> error + Match list" where
  "rank_loop cs project_data [] matches = Inr matches"
| "rank_loop cs project_data (candidate # rest) matches =
     bind_err
       (try_except
          (bind_err (match_user_to_project cs candidate project_data)
             (\<lambda>m. Inr (matches @ [m])))
          (\<lambda>e. Inr matches))
       (\<lambda>matches'. rank_loop cs project_data rest matches')"

text \<open>The key of the sort, and \<open>matches.sort(key=..., reverse=True)\<close>: a stable sort in
  decreasing order of the key, entries with equal keys staying in their order.\<close>

definition sort_key_of :: "Match \<Rightarrow> real \<times> nat" where
  "sort_key_of mm = (score mm, if shared_skills mm \<noteq> [] then length (shared_skills mm) else 0)"

definition sort_matches :: "Match list \<Rightarrow> Match list" where
  "sort_matches matches = rev (sort_key sort_key_of (rev matches))"

text \<open>The slice \<open>xs[:k]\<close>; a negative \<open>k\<close> counts from the end.\<close>

definition slice_to :: "'a list \<Rightarrow> int \<Rightarrow> 'a list" where
  "slice_to xs k = (if 0 \<le> k then take (nat k) xs else take (length xs - nat (- k)) xs)"

definition rank_candidates ::
    "cosine \<Rightarrow> pydict list \<Rightarrow> pydict \<Rightarrow> int \<Rightarrow> error + Match list" where
  "rank_candidates cs candidates project_data top_k =
     bind_err (rank_loop cs project_data candidates [])
       (\<lambda>matches. Inr (slice_to (sort_matches matches) top_k))"

section \<open>The embedding engine\<close>

text \<open>
  The engine keeps a TF-IDF vectorizer of the scikit-learn library, the flag \<open>_fitted\<close>
  and the corpus it was fitted on. The library and the two text builders (string
  formatting only) are parameters: \<open>fit\<close> may raise and returns the vectorizer it leaves
  behind, \<open>transform\<close> gives the row of one text or raises.
\<close>

record 'v EmbeddingEngine =
  vectorizer :: 'v
  embedding_dim :: nat
  fitted :: bool
  corpus :: "string list"

record 'v externals =
  fit :: "'v \<Rightarrow> string list \<Rightarrow> error option \<times> 'v"
  transform :: "'v \<Rightarrow> string \<Rightarrow> error + real list"
  create_profile_text :: "pydict \<Rightarrow> error + string"
  create_project_text :: "pydict \<Rightarrow> error + string"

definition DEFAULT_DIM :: nat where
  "DEFAULT_DIM = 384"

text \<open>The engine as \<open>__init__\<close> leaves it, around a fresh vectorizer.\<close>

definition new_engine :: "'v \<Rightarrow> 'v EmbeddingEngine" where
  "new_engine v = \<lparr> vectorizer = v, embedding_dim = DEFAULT_DIM, fitted = False, corpus = [] \<rparr>"

definition ensure_fitted ::
    "'v externals \<Rightarrow> 'v EmbeddingEngine \<Rightarrow> string list \<Rightarrow> (error + unit) \<times> 'v EmbeddingEngine" where
  "ensure_fitted X self texts =
     (if \<not> fitted self then
        (let self1 = self\<lparr>corpus := texts\<rparr>;
             (r, v) = fit X (vectorizer self1) texts;
             self2 = self1\<lparr>vectorizer := v\<rparr>
         in case r of
              Some e \<Rightarrow> (Inl e, self2)
            | None \<Rightarrow> (Inr (), self2\<lparr>fitted := True\<rparr>))
      else (Inr (), self))"

text \<open>Padding with zeros, or cutting, to \<open>embedding_dim\<close> entries.\<close>

definition pad_or_cut :: "nat \<Rightarrow> real list \<Rightarrow> real list" where
  "pad_or_cut width vec =
     (if length vec < width then vec @ replicate (width - length vec) 0 else take width vec)"

definition encode_text ::
    "'v externals \<Rightarrow> 'v EmbeddingEngine \<Rightarrow> string \<Rightarrow> (error + real list) \<times> 'v EmbeddingEngine" where
  "encode_text X self text =
     (let (r, self1) = (if \<not> fitted self then ensure_fitted X self [text] else (Inr (), self))
      in case r of
           Inl e \<Rightarrow> (Inl e, self1)
         | Inr u \<Rightarrow>
             (case transform X (vectorizer self1) text of
                Inl e \<Rightarrow> (Inl e, self1)
              | Inr vec \<Rightarrow> (Inr (pad_or_cut (embedding_dim self1) vec), self1)))"

definition embed_profile ::
    "'v externals \<Rightarrow> 'v EmbeddingEngine \<Rightarrow> pydict \<Rightarrow> (error + real list) \<times> 'v EmbeddingEngine" where
  "embed_profile X self profile_data =
     (case create_profile_text X profile_data of
        Inl e \<Rightarrow> (Inl e, self)
      | Inr text \<Rightarrow> encode_text X self text)"

definition embed_project ::
    "'v externals \<Rightarrow> 'v EmbeddingEngine \<Rightarrow> pydict \<Rightarrow> (error + real list) \<times> 'v EmbeddingEngine" where
  "embed_project X self project_data =
     (case create_project_text X project_data of
        Inl e \<Rightarrow> (Inl e, self)
      | Inr text \<Rightarrow> encode_text X self text)"

text \<open>The calls that reach the vectorizer, for histories of the engine.\<close>

datatype engine_call =
    EnsureFitted "string list"
  | EncodeText string
  | EmbedProfile pydict
  | EmbedProject pydict

fun run_call :: "'v externals \<Rightarrow> 'v EmbeddingEngine \<Rightarrow> engine_call \<Rightarrow> 'v EmbeddingEngine" where
  "run_call X self (EnsureFitted texts) = snd (ensure_fitted X self texts)"
| "run_call X self (EncodeText text) = snd (encode_text X self text)"
| "run_call X self (EmbedProfile d) = snd (embed_profile X self d)"
| "run_call X self (EmbedProject d) = snd (embed_project X self d)"

definition run_calls ::
    "'v externals \<Rightarrow> 'v EmbeddingEngine \<Rightarrow> engine_call list \<Rightarrow> 'v EmbeddingEngine" where
  "run_calls X self calls = foldl (run_call X) self calls"

section \<open>The wrapper\<close>

text \<open>\<open>MatchingEngineWrapper\<close> holds the embedding engine, or \<open>None\<close> when it could not
  be loaded.\<close>

definition filler :: "real list" where
  "filler = replicate 384 0.1"

definition ensure_embedding ::
    "'v externals \<Rightarrow> 'v EmbeddingEngine option \<Rightarrow> pydict \<Rightarrow> string
       \<Rightarrow> (error + real list) \<times> 'v EmbeddingEngine option" where
  "ensure_embedding X embedding_engine data_dict kind =
     (case embedding_engine of
        None \<Rightarrow> (Inr filler, None)
      | Some eng \<Rightarrow>
          (let (emb, eng') =
                 (if kind = ''profile'' then embed_profile X eng data_dict
                  else embed_project X eng data_dict)
           in (try_except emb (\<lambda>e. Inr filler), Some eng')))"

section \<open>Reference notions and example inputs\<close>

text \<open>The matches of the candidates that score without an error, in the order of the
  batch.\<close>

definition scored :: "cosine \<Rightarrow> pydict \<Rightarrow> pydict list \<Rightarrow> Match list" where
  "scored cs project_data candidates =
     concat (map (\<lambda>c. case match_user_to_project cs c project_data of
                         Inr m \<Rightarrow> [m] | Inl e \<Rightarrow> []) candidates)"

text \<open>A computation raises when its result is an error.\<close>

definition raises :: "error + 'a \<Rightarrow> bool" where
  "raises r = (case r of Inl e \<Rightarrow> True | Inr x \<Rightarrow> False)"

text \<open>One match ranks before another: a greater score, or the same score and at least
  as many shared skills.\<close>

definition ranks_before :: "Match \<Rightarrow> Match \<Rightarrow> bool" where
  "ranks_before a b =
     (score a > score b
      \<or> (score a = score b \<and> length (shared_skills a) \<ge> length (shared_skills b)))"

text \<open>The spelling the target gives a normalized key: its last skill with that key.\<close>

definition target_spelling :: "string list \<Rightarrow> string \<Rightarrow> string" where
  "target_spelling rs k = last (filter (\<lambda>s. normalize_skill s = k) rs)"

definition strs :: "string list \<Rightarrow> pyval" where
  "strs xs = PList (map PStr xs)"

definition int_val :: "int \<Rightarrow> pyval" where
  "int_val i = PNum (of_int i)"

definition cosine_half :: cosine where
  "cosine_half a b = Inr 0.5"

definition a_match :: "real \<Rightarrow> string list \<Rightarrow> Match" where
  "a_match sc sh =
     \<lparr> target_id = PStr ''p'', score = sc, reasons = [], shared_skills = sh,
       complementary_skills = [] \<rparr>"

definition user_py_react :: pydict where
  "user_py_react = [''id'' \<mapsto> PStr ''u1'', ''skills'' \<mapsto> strs [''python'', ''react'']]"

definition user_py :: pydict where
  "user_py = [''id'' \<mapsto> PStr ''u2'', ''skills'' \<mapsto> strs [''python'']]"

definition user_malformed :: pydict where
  "user_malformed =
     [''id'' \<mapsto> PStr ''u3'', ''skills'' \<mapsto> strs [''python'', ''django'', ''react''],
      ''experience_years'' \<mapsto> PStr ''three'']"

definition project_web :: pydict where
  "project_web =
     [''id'' \<mapsto> PNum 7, ''required_skills'' \<mapsto> strs [''python'', ''django'', ''react'']]"

text \<open>A library whose vectorizer is its vocabulary: fitting stores the corpus,
  transforming counts the occurrences of each vocabulary entry in the text.\<close>

definition toy_externals :: "string list externals" where
  "toy_externals =
     \<lparr> fit = (\<lambda>v texts. (None, texts)),
       transform = (\<lambda>v text. Inr (map (\<lambda>w. if w = text then 1 else 0) v)),
       create_profile_text = (\<lambda>d. Inr ''profile''),
       create_project_text = (\<lambda>d. Inr ''project'') \<rparr>"

definition failing_externals :: "string list externals" where
  "failing_externals = toy_externals \<lparr> fit := (\<lambda>v texts. (Some LibraryError, v)) \<rparr>"

definition profile_with_embedding :: pydict where
  "profile_with_embedding =
     [''skills'' \<mapsto> strs [''python''], ''embedding'' \<mapsto> PList [PNum 0.25, PNum 0.75]]"

definition match_py_react :: Match where
  "match_py_react =
     \<lparr> target_id = PNum 7, score = 0.59,
       reasons = [SkillsMatched 2 3, StrongSkillMatch],
       shared_skills = [''python'', ''react''],
       complementary_skills = [''django''] \<rparr>"

definition match_py :: Match where
  "match_py =
     \<lparr> target_id = PNum 7, score = 0.42,
       reasons = [SkillsMatched 1 3],
       shared_skills = [''python''],
       complementary_skills = [''django'', ''react''] \<rparr>"

definition project_both :: pydict where
  "project_both =
     [''id'' \<mapsto> PNum 7, ''skills'' \<mapsto> strs [''python'', ''django'', ''react''],
      ''required_skills'' \<mapsto> strs [''rust'']]"

definition project_roles_both :: pydict where
  "project_roles_both =
     [''id'' \<mapsto> PNum 7, ''required_skills'' \<mapsto> strs [''python'', ''django'', ''react''],
      ''required_roles'' \<mapsto> strs [''backend''], ''roles'' \<mapsto> strs [''frontend'']]"

definition user_backend :: pydict where
  "user_backend =
     [''id'' \<mapsto> PStr ''u4'', ''skills'' \<mapsto> strs [''python''],
      ''roles'' \<mapsto> strs [''Backend'']]"

definition match_backend :: Match where
  "match_backend =
     \<lparr> target_id = PNum 7, score = 0.42,
       reasons = [SkillsMatched 1 3, RoleFit [''backend'']],
       shared_skills = [''python''],
       complementary_skills = [''django'', ''react''] \<rparr>"

section \<open>Basic facts\<close>

lemma bind_err_simps:
  "bind_err (Inl e) f = Inl e"
  "bind_err (Inr x) f = f x"
  by (simp_all add: bind_err_def)

lemma bind_err_eq_Inr:
  "bind_err r f = Inr y \<longleftrightarrow> (\<exists>x. r = Inr x \<and> f x = Inr y)"
  by (cases r) (simp_all add: bind_err_def)

section \<open>The weights\<close>

text \<open>
  The five weights that enter the weighted sum do not add up to one: the table holds a
  sixth weight, \<open>hackathon_bonus\<close>, that no sub-score is multiplied with.
\<close>

theorem combined_weights_sum_counterexample:
  "sum_list combined_weights \<noteq> 1"
  by (simp add: combined_weights_def WEIGHTS_def)

text \<open>
  Claim C2, as amended: the weights of the five sub-scores combined into the final score
  (skill overlap, embedding similarity, role match, experience fit, availability) sum to
  0.95; together with the unused weight \<open>hackathon_bonus\<close> the table sums to 1. The final
  score is the clamped sum of the five sub-scores times these weights plus the boost, so
  five perfect sub-scores without shared skills give 0.95.
\<close>

theorem combined_weights_sum:
  "sum_list combined_weights = 0.95
   \<and> sum_list combined_weights + hackathon_bonus WEIGHTS = 1
   \<and> final_score s e r x a n
       = max 0 (min 1 (sum_list (map2 (*) [s, e, r, x, a] combined_weights)
                        + min (real n * 0.02) 0.12))
   \<and> final_score 1 1 1 1 1 0 = 0.95"
  by (simp add: combined_weights_def WEIGHTS_def final_score_def Let_def)

section \<open>Experience fit\<close>

lemma experience_fit_int:
  "calculate_experience_fit (int_val y) (int_val lo) (int_val hi) =
     Inr (if y < lo then max 0.5 (1 - real_of_int (lo - y) * 0.15)
          else if hi < y then max 0.7 (1 - real_of_int (y - hi) * 0.05)
          else 1)"
  by (simp add: calculate_experience_fit_def int_val_def py_gt_def bind_err_simps)

text \<open>
  With bounds in the wrong order, 3 years against a minimum of 5 and a maximum of 2 is
  above the maximum, yet the branch for too little experience is taken first and gives
  0.7, not the 0.95 of the formula for too much experience.
\<close>

theorem experience_fit_counterexample:
  "(2::int) < 3
   \<and> calculate_experience_fit (int_val 3) (int_val 5) (int_val 2) = Inr 0.7
   \<and> (0.7::real) \<noteq> max 0.7 (1 - 0.05 * real_of_int (3 - 2))"
  by (simp add: experience_fit_int)

text \<open>
  Claim C5, as amended: for all integers \<open>y\<close> (years), \<open>lo\<close> (minimum) and \<open>hi\<close> (maximum),
  the experience fit is 1 when \<open>lo \<le> y \<le> hi\<close>; it is \<open>max 0.5 (1 - 0.15 * (lo - y))\<close>
  when \<open>y < lo\<close>; it is \<open>max 0.7 (1 - 0.05 * (y - hi))\<close> when \<open>y > hi\<close> and \<open>y\<close> is not
  below \<open>lo\<close>; and it does not increase as the gap grows, below the minimum and above
  the maximum.
\<close>

theorem experience_fit_spec:
  "(lo \<le> y \<and> y \<le> hi \<longrightarrow>
      calculate_experience_fit (int_val y) (int_val lo) (int_val hi) = Inr 1)
   \<and> (y < lo \<longrightarrow>
      calculate_experience_fit (int_val y) (int_val lo) (int_val hi) =
        Inr (max 0.5 (1 - 0.15 * real_of_int (lo - y))))
   \<and> (hi < y \<and> lo \<le> y \<longrightarrow>
      calculate_experience_fit (int_val y) (int_val lo) (int_val hi) =
        Inr (max 0.7 (1 - 0.05 * real_of_int (y - hi))))
   \<and> (y' \<le> y \<and> y < lo \<longrightarrow>
      (\<exists>a b. calculate_experience_fit (int_val y') (int_val lo) (int_val hi) = Inr a
           \<and> calculate_experience_fit (int_val y) (int_val lo) (int_val hi) = Inr b
           \<and> a \<le> b))
   \<and> (hi < y \<and> lo \<le> y \<and> y \<le> y' \<longrightarrow>
      (\<exists>a b. calculate_experience_fit (int_val y') (int_val lo) (int_val hi) = Inr a
           \<and> calculate_experience_fit (int_val y) (int_val lo) (int_val hi) = Inr b
           \<and> a \<le> b))"
  unfolding experience_fit_int by (auto simp: max_def)

theorem experience_fit_spec_witness:
  "calculate_experience_fit (int_val 4) (int_val 2) (int_val 5) = Inr 1
   \<and> calculate_experience_fit (int_val 1) (int_val 3) (int_val 5) = Inr 0.7
   \<and> calculate_experience_fit (int_val 8) (int_val 3) (int_val 5) = Inr 0.85
   \<and> (\<exists>a b. calculate_experience_fit (int_val 0) (int_val 3) (int_val 5) = Inr a
           \<and> calculate_experience_fit (int_val 1) (int_val 3) (int_val 5) = Inr b
           \<and> a \<le> b)
   \<and> (\<exists>a b. calculate_experience_fit (int_val 9) (int_val 3) (int_val 5) = Inr a
           \<and> calculate_experience_fit (int_val 8) (int_val 3) (int_val 5) = Inr b
           \<and> a \<le> b)"
proof -
  have "calculate_experience_fit (int_val 4) (int_val 2) (int_val 5) = Inr 1"
    using experience_fit_spec [of 2 4 5 4] by simp
  moreover have "calculate_experience_fit (int_val 1) (int_val 3) (int_val 5) = Inr 0.7"
    using experience_fit_spec [of 3 1 5 0] by simp
  moreover have "calculate_experience_fit (int_val 8) (int_val 3) (int_val 5) = Inr 0.85"
    using experience_fit_spec [of 3 8 5 9] by simp
  moreover have "\<exists>a b. calculate_experience_fit (int_val 0) (int_val 3) (int_val 5) = Inr a
           \<and> calculate_experience_fit (int_val 1) (int_val 3) (int_val 5) = Inr b
           \<and> a \<le> b"
    using experience_fit_spec [of 3 1 5 0] by auto
  moreover have "\<exists>a b. calculate_experience_fit (int_val 9) (int_val 3) (int_val 5) = Inr a
           \<and> calculate_experience_fit (int_val 8) (int_val 3) (int_val 5) = Inr b
           \<and> a \<le> b"
    using experience_fit_spec [of 3 8 5 9] by auto
  ultimately show ?thesis by blast
qed

section \<open>The final score\<close>

lemma final_score_range: "0 \<le> final_score a b c d e n \<and> final_score a b c d e n \<le> 1"
  by (simp add: final_score_def Let_def)

lemma match_user_py_react:
  "match_user_to_project cosine_half user_py_react project_web = Inr match_py_react"
  by code_simp

lemma match_user_py:
  "match_user_to_project cosine_half user_py project_web = Inr match_py"
  by code_simp

lemma match_user_malformed:
  "match_user_to_project cosine_half user_malformed project_web = Inl TypeError"
  by code_simp

text \<open>
  Claim C3: whenever \<open>match_user_to_project\<close> returns a match, its score lies between 0
  and 1, the boost for shared skills included.
\<close>

theorem match_score_clamped:
  "match_user_to_project cs user_data project_data = Inr m \<Longrightarrow> 0 \<le> score m \<and> score m \<le> 1"
  by (auto simp: match_user_to_project_def bind_err_eq_Inr Let_def final_score_range
           split: prod.splits)

theorem match_score_clamped_witness:
  "match_user_to_project cosine_half user_py_react project_web = Inr match_py_react
   \<and> 0 \<le> score match_py_react \<and> score match_py_react \<le> 1"
  using match_score_clamped [OF match_user_py_react] match_user_py_react by simp

section \<open>Ranking a batch\<close>

lemma rank_loop_scored:
  "rank_loop cs p candidates acc = Inr (acc @ scored cs p candidates)"
proof (induction candidates arbitrary: acc)
  case Nil
  show ?case by (simp add: scored_def)
next
  case (Cons c rest)
  show ?case
  proof (cases "match_user_to_project cs c p")
    case (Inl e)
    then show ?thesis
      using Cons.IH [of acc] by (simp add: scored_def try_except_def bind_err_simps)
  next
    case (Inr m)
    then show ?thesis
      using Cons.IH [of "acc @ [m]"] by (simp add: scored_def try_except_def bind_err_simps)
  qed
qed

lemma rank_candidates_eq:
  "rank_candidates cs candidates p k = Inr (slice_to (sort_matches (scored cs p candidates)) k)"
  by (simp add: rank_candidates_def rank_loop_scored bind_err_simps)

lemma mset_sort_matches: "mset (sort_matches ms) = mset ms"
  by (simp add: sort_matches_def)

lemma ranks_before_key: "ranks_before a b \<longleftrightarrow> sort_key_of b \<le> sort_key_of a"
  by (auto simp: ranks_before_def sort_key_of_def less_eq_prod_def)

lemma sorted_sort_matches: "sorted_wrt ranks_before (sort_matches ms)"
proof -
  have "sorted (map sort_key_of (sort_key sort_key_of (rev ms)))"
    by (rule sorted_sort_key)
  then have "sorted_wrt (\<lambda>a b. sort_key_of a \<le> sort_key_of b) (sort_key sort_key_of (rev ms))"
    by (simp add: sorted_wrt_map)
  then have "sorted_wrt (\<lambda>a b. sort_key_of b \<le> sort_key_of a) (sort_matches ms)"
    by (simp add: sort_matches_def sorted_wrt_rev)
  then show ?thesis
    by (simp add: ranks_before_key [abs_def])
qed

lemma scored_filter:
  "scored cs p (filter (\<lambda>c. \<not> raises (match_user_to_project cs c p)) candidates)
     = scored cs p candidates"
  by (induction candidates) (auto simp: scored_def raises_def split: sum.splits)

lemma length_scored:
  "length (scored cs p candidates)
     = length (filter (\<lambda>c. \<not> raises (match_user_to_project cs c p)) candidates)"
  by (induction candidates) (auto simp: scored_def raises_def split: sum.splits)

lemma scored_examples:
  "scored cosine_half project_web [user_py, user_py_react] = [match_py, match_py_react]"
  "scored cosine_half project_web [user_py, user_py_react, user_py]
     = [match_py, match_py_react, match_py]"
  "scored cosine_half project_web [user_py, user_malformed, user_py_react]
     = [match_py, match_py_react]"
  by (simp_all add: scored_def match_user_py match_user_py_react match_user_malformed)

lemma sort_matches_examples:
  "sort_matches [match_py, match_py_react] = [match_py_react, match_py]"
  "sort_matches [match_py, match_py_react, match_py] = [match_py_react, match_py, match_py]"
  by (simp_all add: sort_matches_def sort_key_of_def match_py_def match_py_react_def
        less_eq_prod_def)

text \<open>
  A negative \<open>top_k\<close> is a slice from the end: of three scored candidates, \<open>top_k = -1\<close>
  returns two, which is not at most \<open>top_k\<close> entries.
\<close>

theorem rank_candidates_counterexample:
  "rank_candidates cosine_half [user_py, user_py_react, user_py] project_web (- 1)
     = Inr [match_py_react, match_py]
   \<and> \<not> int (length [match_py_react, match_py]) \<le> - 1"
  by (simp add: rank_candidates_eq scored_examples sort_matches_examples slice_to_def)

text \<open>
  Claim C4, as amended: for every list of candidates, target record and \<open>top_k \<ge> 0\<close>,
  \<open>rank_candidates\<close> returns the first \<open>top_k\<close> entries of the scored matches sorted in
  decreasing order of the score and, among equal scores, of the number of shared skills;
  the sorted list is a rearrangement of the scored matches. Of three matches with scores
  0.9, 0.9, 0.5 and 2, 5, 10 shared skills, the one with 5 shared skills comes first, then
  the one with 2, then the one with score 0.5.
\<close>

theorem rank_candidates_sorted:
  assumes "0 \<le> top_k"
  shows "rank_candidates cs candidates p top_k
           = Inr (take (nat top_k) (sort_matches (scored cs p candidates)))
         \<and> mset (sort_matches (scored cs p candidates)) = mset (scored cs p candidates)
         \<and> sorted_wrt ranks_before (sort_matches (scored cs p candidates))
         \<and> sorted_wrt ranks_before (take (nat top_k) (sort_matches (scored cs p candidates)))
         \<and> int (length (take (nat top_k) (sort_matches (scored cs p candidates)))) \<le> top_k
         \<and> sort_matches
              [a_match 0.9 [''a'', ''b''],
               a_match 0.9 [''a'', ''b'', ''c'', ''d'', ''e''],
               a_match 0.5 [''a'', ''b'', ''c'', ''d'', ''e'', ''f'', ''g'', ''h'', ''i'', ''j'']]
            = [a_match 0.9 [''a'', ''b'', ''c'', ''d'', ''e''],
               a_match 0.9 [''a'', ''b''],
               a_match 0.5 [''a'', ''b'', ''c'', ''d'', ''e'', ''f'', ''g'', ''h'', ''i'', ''j'']]"
proof -
  have "rank_candidates cs candidates p top_k
          = Inr (take (nat top_k) (sort_matches (scored cs p candidates)))"
    using assms by (simp add: rank_candidates_eq slice_to_def)
  moreover have "sorted_wrt ranks_before (take (nat top_k) (sort_matches (scored cs p candidates)))"
    by (rule sorted_wrt_take) (rule sorted_sort_matches)
  moreover have "int (length (take (nat top_k) (sort_matches (scored cs p candidates)))) \<le> top_k"
    using assms by simp
  moreover have "sort_matches
              [a_match 0.9 [''a'', ''b''],
               a_match 0.9 [''a'', ''b'', ''c'', ''d'', ''e''],
               a_match 0.5 [''a'', ''b'', ''c'', ''d'', ''e'', ''f'', ''g'', ''h'', ''i'', ''j'']]
            = [a_match 0.9 [''a'', ''b'', ''c'', ''d'', ''e''],
               a_match 0.9 [''a'', ''b''],
               a_match 0.5 [''a'', ''b'', ''c'', ''d'', ''e'', ''f'', ''g'', ''h'', ''i'', ''j'']]"
    by (simp add: sort_matches_def sort_key_of_def a_match_def less_eq_prod_def)
  ultimately show ?thesis
    using mset_sort_matches sorted_sort_matches by blast
qed

theorem rank_candidates_sorted_witness:
  "(0::int) \<le> 1
   \<and> rank_candidates cosine_half [user_py, user_py_react] project_web 1 = Inr [match_py_react]"
  using rank_candidates_sorted [of 1 cosine_half "[user_py, user_py_react]" project_web]
  by (simp add: scored_examples sort_matches_examples)

text \<open>
  Claim C8: a candidate for which \<open>match_user_to_project\<close> raises is left out of the
  ranking and every other candidate is scored and ranked: \<open>rank_candidates\<close> always
  returns a list, the same list as for the batch without the raising candidates, built
  from one match for each candidate that does not raise. Of three candidates of which one
  has a string for \<open>experience_years\<close>, the other two are ranked.
\<close>

theorem rank_candidates_skips_failures:
  "(\<exists>ms. rank_candidates cs candidates p top_k = Inr ms)
   \<and> rank_candidates cs candidates p top_k
       = rank_candidates cs
           (filter (\<lambda>c. \<not> raises (match_user_to_project cs c p)) candidates) p top_k
   \<and> rank_candidates cs candidates p top_k
       = Inr (slice_to (sort_matches (scored cs p candidates)) top_k)
   \<and> length (scored cs p candidates)
       = length (filter (\<lambda>c. \<not> raises (match_user_to_project cs c p)) candidates)
   \<and> raises (match_user_to_project cosine_half user_malformed project_web)
   \<and> rank_candidates cosine_half [user_py, user_malformed, user_py_react] project_web 20
       = Inr [match_py_react, match_py]"
proof -
  have "rank_candidates cosine_half [user_py, user_malformed, user_py_react] project_web 20
          = Inr [match_py_react, match_py]"
    by (simp add: rank_candidates_eq scored_examples sort_matches_examples slice_to_def)
  moreover have "raises (match_user_to_project cosine_half user_malformed project_web)"
    by (simp add: match_user_malformed raises_def)
  ultimately show ?thesis
    by (simp add: rank_candidates_eq scored_filter length_scored)
qed

theorem rank_candidates_skips_failures_witness:
  "rank_candidates cosine_half [user_malformed, user_py] project_web 5
     = rank_candidates cosine_half [user_py] project_web 5
   \<and> rank_candidates cosine_half [user_malformed, user_py] project_web 5 = Inr [match_py]"
proof -
  have f: "filter (\<lambda>c. \<not> raises (match_user_to_project cosine_half c project_web))
             [user_malformed, user_py] = [user_py]"
    by (simp add: match_user_malformed match_user_py raises_def)
  have s: "scored cosine_half project_web [user_malformed, user_py] = [match_py]"
    by (simp add: scored_def match_user_malformed match_user_py)
  have "rank_candidates cosine_half [user_malformed, user_py] project_web 5
          = rank_candidates cosine_half
              (filter (\<lambda>c. \<not> raises (match_user_to_project cosine_half c project_web))
                 [user_malformed, user_py]) project_web 5
        \<and> rank_candidates cosine_half [user_malformed, user_py] project_web 5
          = Inr (slice_to (sort_matches
                   (scored cosine_half project_web [user_malformed, user_py])) 5)"
    using rank_candidates_skips_failures
            [of cosine_half "[user_malformed, user_py]" project_web 5]
    by blast
  then show ?thesis
    unfolding f s by (auto simp add: sort_matches_def slice_to_def)
qed

section \<open>Skill overlap and the project's fields\<close>

lemma norm_dict_strs:
  "norm_dict d (map PStr xs) = Inr (foldl (\<lambda>d s. AList.update (normalize_skill s) s d) d xs)"
  by (induction xs arbitrary: d) simp_all

lemma map_of_norm_fold:
  "map_of (foldl (\<lambda>d s. AList.update (f s) s d) d xs)
     = foldl (\<lambda>m s. m(f s \<mapsto> s)) (map_of d) xs"
  by (induction xs arbitrary: d) (simp_all add: update_conv')

lemma keys_norm_fold:
  "fst ` set (foldl (\<lambda>d s. AList.update (f s) s d) d xs) = fst ` set d \<union> f ` set xs"
  by (induction xs arbitrary: d) (auto simp: dom_update)

lemma distinct_norm_fold:
  "distinct (map fst d) \<Longrightarrow> distinct (map fst (foldl (\<lambda>d s. AList.update (f s) s d) d xs))"
  by (induction xs arbitrary: d) (simp_all add: distinct_update)

lemma last_spelling:
  "foldl (\<lambda>m s. m(f s \<mapsto> s)) Map.empty xs k
     = (if k \<in> f ` set xs then Some (last (filter (\<lambda>s. f s = k) xs)) else None)"
  by (induction xs rule: rev_induct) auto

lemma lookup_all_map:
  assumes "\<And>k. k \<in> set ks \<Longrightarrow> map_of d k = Some (g k)"
  shows "lookup_all d ks = Inr (map g ks)"
  using assms by (induction ks) (simp_all add: bind_err_simps)

lemma target_spelling_key:
  "k \<in> normalize_skill ` set rs \<Longrightarrow>
     normalize_skill (target_spelling rs k) = k \<and> target_spelling rs k \<in> set rs"
proof -
  assume "k \<in> normalize_skill ` set rs"
  then have ne: "filter (\<lambda>s. normalize_skill s = k) rs \<noteq> []"
    by (auto simp: filter_empty_conv)
  from last_in_set [OF ne] show ?thesis
    by (simp add: target_spelling_def)
qed

lemma skill_overlap_strs:
  assumes "rs \<noteq> []"
  shows "calculate_skill_overlap (strs us) (strs rs) =
     Inr (min (real (card (normalize_skill ` set us \<inter> normalize_skill ` set rs))
                 / real (card (normalize_skill ` set rs))
               + min (real (card (normalize_skill ` set us - normalize_skill ` set rs)) * 0.05) 0.2) 1,
          map (target_spelling rs)
            (sorted_list_of_set (normalize_skill ` set us \<inter> normalize_skill ` set rs)),
          map (target_spelling rs)
            (sorted_list_of_set (normalize_skill ` set rs - normalize_skill ` set us)))"
proof -
  let ?U = "normalize_skill ` set us" and ?R = "normalize_skill ` set rs"
  let ?ud = "foldl (\<lambda>d s. AList.update (normalize_skill s) s d) [] us"
  let ?rd = "foldl (\<lambda>d s. AList.update (normalize_skill s) s d) [] rs"
  have uk: "set (map fst ?ud) = ?U" and rk: "set (map fst ?rd) = ?R"
    using keys_norm_fold [of normalize_skill "[]"] by simp_all
  have lk: "map_of ?rd k = Some (target_spelling rs k)" if "k \<in> ?R" for k
    using that by (simp add: map_of_norm_fold last_spelling target_spelling_def)
  have sh: "lookup_all ?rd (sorted_list_of_set (?U \<inter> ?R))
              = Inr (map (target_spelling rs) (sorted_list_of_set (?U \<inter> ?R)))"
    by (rule lookup_all_map) (simp add: lk)
  have co: "lookup_all ?rd (sorted_list_of_set (?R - ?U))
              = Inr (map (target_spelling rs) (sorted_list_of_set (?R - ?U)))"
    by (rule lookup_all_map) (simp add: lk)
  have "distinct (map fst ?rd)"
    by (rule distinct_norm_fold) simp
  then have "card (set (map fst ?rd)) = length (map fst ?rd)"
    by (rule distinct_card)
  then have len: "length ?rd = card ?R"
    using rk by simp
  have ne: "?rd \<noteq> []"
    using assms rk by (metis empty_set image_is_empty list.map_disc_iff set_empty)
  have tr: "truthy (strs rs)"
    using assms by (simp add: strs_def)
  have it: "py_iter (py_or (strs us) (PList [])) = Inr (map PStr us)"
    "py_iter (py_or (strs rs) (PList [])) = Inr (map PStr rs)"
    by (simp_all add: strs_def py_or_def)
  show ?thesis
    unfolding calculate_skill_overlap_def
    by (simp only: tr it norm_dict_strs bind_err_simps Let_def uk rk sh co len ne
          not_True_eq_False if_False not_False_eq_True if_True)
qed

lemma skill_overlap_example:
  "calculate_skill_overlap (strs [''python'', ''react'']) (strs [''python'', ''django'', ''react''])
     = Inr (2 / 3, [''python'', ''react''], [''django''])"
  by code_simp

text \<open>
  Claim C1: for lists of strings, an empty required list gives the score 0.5 and empty
  lists. Otherwise, with both sides keyed by \<open>normalize_skill\<close>, the shared skills are the
  keys present on both sides and the complementary skills the keys the target requires and
  the candidate lacks, both in increasing order of the key and in the target's spelling,
  and the score is \<open>min (|shared| / |required keys| + min (|user-only keys| * 0.05) 0.2) 1\<close>.
  For the candidate skills python, react and the required skills python, django, react,
  the shared skills are python and react, the complementary skill is django and the score
  is 2/3.
\<close>

theorem skill_overlap_spec:
  "calculate_skill_overlap (strs us) (strs []) = Inr (0.5, [], [])
   \<and> (rs \<noteq> [] \<longrightarrow>
        (\<exists>shared complementary.
           calculate_skill_overlap (strs us) (strs rs) =
             Inr (min (real (card (normalize_skill ` set rs \<inter> normalize_skill ` set us))
                         / real (card (normalize_skill ` set rs))
                       + min (real (card (normalize_skill ` set us - normalize_skill ` set rs))
                                * 0.05) 0.2) 1,
                  shared, complementary)
           \<and> shared = map (target_spelling rs)
                (sorted_list_of_set (normalize_skill ` set rs \<inter> normalize_skill ` set us))
           \<and> complementary = map (target_spelling rs)
                (sorted_list_of_set (normalize_skill ` set rs - normalize_skill ` set us))
           \<and> map normalize_skill shared
                = sorted_list_of_set (normalize_skill ` set rs \<inter> normalize_skill ` set us)
           \<and> map normalize_skill complementary
                = sorted_list_of_set (normalize_skill ` set rs - normalize_skill ` set us)
           \<and> set shared \<subseteq> set rs \<and> set complementary \<subseteq> set rs))
   \<and> calculate_skill_overlap (strs [''python'', ''react''])
         (strs [''python'', ''django'', ''react''])
       = Inr (2 / 3, [''python'', ''react''], [''django''])"
proof -
  let ?U = "normalize_skill ` set us" and ?R = "normalize_skill ` set rs"
  have e: "calculate_skill_overlap (strs us) (strs []) = Inr (0.5, [], [])"
    by (simp add: calculate_skill_overlap_def strs_def)
  have k: "map normalize_skill (map (target_spelling rs) ks) = ks" if "set ks \<subseteq> ?R" for ks
    using that by (induction ks) (simp_all add: target_spelling_key)
  have k1: "map normalize_skill (map (target_spelling rs) (sorted_list_of_set (?R \<inter> ?U)))
              = sorted_list_of_set (?R \<inter> ?U)"
    by (rule k) simp
  have k2: "map normalize_skill (map (target_spelling rs) (sorted_list_of_set (?R - ?U)))
              = sorted_list_of_set (?R - ?U)"
    by (rule k) auto
  have s1: "set (map (target_spelling rs) (sorted_list_of_set (?R \<inter> ?U))) \<subseteq> set rs"
    using target_spelling_key by auto
  have s2: "set (map (target_spelling rs) (sorted_list_of_set (?R - ?U))) \<subseteq> set rs"
    using target_spelling_key by auto
  show ?thesis
    using e k1 k2 s1 s2 skill_overlap_example
    by (simp add: skill_overlap_strs Int_commute)
qed

theorem skill_overlap_spec_witness:
  "[''react-js'', ''Python''] \<noteq> ([] :: string list)
   \<and> calculate_skill_overlap (strs [''React.JS'', ''SQL'']) (strs [''react-js'', ''Python''])
       = Inr (0.55, [''react-js''], [''Python''])"
proof -
  let ?us = "[''React.JS'', ''SQL'']" and ?rs = "[''react-js'', ''Python'']"
  have a: "calculate_skill_overlap (strs ?us) (strs ?rs) =
             Inr (min (real (card (normalize_skill ` set ?rs \<inter> normalize_skill ` set ?us))
                         / real (card (normalize_skill ` set ?rs))
                       + min (real (card (normalize_skill ` set ?us - normalize_skill ` set ?rs))
                                * 0.05) 0.2) 1,
                  map (target_spelling ?rs)
                    (sorted_list_of_set (normalize_skill ` set ?rs \<inter> normalize_skill ` set ?us)),
                  map (target_spelling ?rs)
                    (sorted_list_of_set (normalize_skill ` set ?rs - normalize_skill ` set ?us)))"
    using skill_overlap_spec [of ?us ?rs] by blast
  have b: "(min (real (card (normalize_skill ` set ?rs \<inter> normalize_skill ` set ?us))
                         / real (card (normalize_skill ` set ?rs))
                       + min (real (card (normalize_skill ` set ?us - normalize_skill ` set ?rs))
                                * 0.05) 0.2) 1,
                  map (target_spelling ?rs)
                    (sorted_list_of_set (normalize_skill ` set ?rs \<inter> normalize_skill ` set ?us)),
                  map (target_spelling ?rs)
                    (sorted_list_of_set (normalize_skill ` set ?rs - normalize_skill ` set ?us)))
           = (0.55, [''react-js''], [''Python''])"
    by code_simp
  show ?thesis
    using a unfolding b by simp
qed

lemma match_project_both: "match_user_to_project cosine_half user_py_react (project_both(''required_skills'' := None))
   = Inr match_py_react"
  by code_simp

lemma match_project_web_skills: "match_user_to_project cosine_half user_py_react
     (project_web(''skills'' := project_web ''required_skills'')) = Inr match_py_react"
  by code_simp

lemma match_project_roles_both: "match_user_to_project cosine_half user_backend (project_roles_both(''roles'' := None))
   = Inr match_backend"
  by code_simp

lemma match_project_web_roles: "match_user_to_project cosine_half user_backend
     (project_web(''required_roles'' := project_web ''roles'')) = Inr match_py"
  by code_simp

lemma example_truthiness:
  "truthy (dict_get project_both ''skills'' PNone)"
  "\<not> truthy (dict_get project_web ''skills'' PNone)"
  "truthy (dict_get project_roles_both ''required_roles'' (PList []))"
  "\<not> truthy (dict_get project_web ''required_roles'' (PList []))"
  by (simp_all add: project_both_def project_web_def project_roles_both_def dict_get_def strs_def)

lemma project_skills_truthy:
  "truthy (dict_get p ''skills'' PNone) \<Longrightarrow> project_skills p = dict_get p ''skills'' PNone"
  by (simp add: project_skills_def py_or_def)

lemma project_skills_ignores_required:
  "truthy (dict_get p ''skills'' PNone) \<Longrightarrow>
     project_skills (p(''required_skills'' := v)) = project_skills p"
  by (simp add: project_skills_def py_or_def dict_get_def)

lemma project_skills_fallback:
  "\<not> truthy (dict_get p ''skills'' PNone) \<Longrightarrow>
     project_skills p = py_or (dict_get p ''required_skills'' (PList [])) (PList [])"
  by (simp add: project_skills_def py_or_def)

lemma project_skills_fallback_update:
  "\<not> truthy (dict_get p ''skills'' PNone) \<Longrightarrow>
     project_skills (p(''skills'' := p ''required_skills'')) = project_skills p"
  by (cases "p ''required_skills''") (auto simp: project_skills_def py_or_def dict_get_def)

lemma project_skills_roles_update:
  "project_skills (p(''roles'' := v)) = project_skills p"
  "project_skills (p(''required_roles'' := v)) = project_skills p"
  by (simp_all add: project_skills_def dict_get_def)

lemma project_roles_skills_update:
  "project_roles (p(''skills'' := v)) = project_roles p"
  "project_roles (p(''required_skills'' := v)) = project_roles p"
  by (simp_all add: project_roles_def dict_get_def)

lemma project_roles_ignores_roles:
  "truthy (dict_get p ''required_roles'' (PList [])) \<Longrightarrow>
     project_roles (p(''roles'' := v)) = project_roles p"
  by (simp add: project_roles_def py_or_def dict_get_def)

lemma project_roles_fallback_update:
  "\<not> truthy (dict_get p ''required_roles'' (PList [])) \<Longrightarrow>
     project_roles (p(''required_roles'' := p ''roles'')) = project_roles p"
  by (cases "p ''roles''") (auto simp: project_roles_def py_or_def dict_get_def)

lemma match_cong:
  assumes "project_skills p' = project_skills p" "project_roles p' = project_roles p"
    and "\<And>k. k \<in> {''embedding'', ''min_experience'', ''max_experience'', ''timezone'', ''id''}
           \<Longrightarrow> p' k = p k"
  shows "match_user_to_project cs u p' = match_user_to_project cs u p"
  using assms by (simp add: match_user_to_project_def dict_get_def)

lemma match_skills_source:
  "match_user_to_project cs u p = Inr m \<Longrightarrow>
     \<exists>sc. calculate_skill_overlap (py_or (dict_get u ''skills'' (PList [])) (PList []))
            (project_skills p) = Inr (sc, shared_skills m, complementary_skills m)"
  by (auto simp: match_user_to_project_def bind_err_eq_Inr Let_def split: prod.splits)

text \<open>
  Claim C10: when the project's \<open>skills\<close> field is present and true (non-empty), the match
  does not depend on \<open>required_skills\<close> and its shared and complementary skills are those
  of the skill overlap against \<open>skills\<close>; otherwise the match is the one against
  \<open>required_skills\<close>. In the same way the roles are \<open>required_roles\<close> when that field is
  true, and \<open>roles\<close> otherwise.
\<close>

theorem project_skills_precedence:
  "(truthy (dict_get p ''skills'' PNone) \<longrightarrow>
      match_user_to_project cs u (p(''required_skills'' := v)) = match_user_to_project cs u p
      \<and> (match_user_to_project cs u p = Inr m \<longrightarrow>
           (\<exists>sc. calculate_skill_overlap (py_or (dict_get u ''skills'' (PList [])) (PList []))
                   (dict_get p ''skills'' PNone)
                 = Inr (sc, shared_skills m, complementary_skills m))))
   \<and> (\<not> truthy (dict_get p ''skills'' PNone) \<longrightarrow>
      match_user_to_project cs u (p(''skills'' := p ''required_skills''))
        = match_user_to_project cs u p
      \<and> (match_user_to_project cs u p = Inr m \<longrightarrow>
           (\<exists>sc. calculate_skill_overlap (py_or (dict_get u ''skills'' (PList [])) (PList []))
                   (py_or (dict_get p ''required_skills'' (PList [])) (PList []))
                 = Inr (sc, shared_skills m, complementary_skills m))))
   \<and> (truthy (dict_get p ''required_roles'' (PList [])) \<longrightarrow>
      match_user_to_project cs u (p(''roles'' := v)) = match_user_to_project cs u p)
   \<and> (\<not> truthy (dict_get p ''required_roles'' (PList [])) \<longrightarrow>
      match_user_to_project cs u (p(''required_roles'' := p ''roles''))
        = match_user_to_project cs u p)"
proof -
  have a: "match_user_to_project cs u (p(''required_skills'' := v)) = match_user_to_project cs u p"
    if "truthy (dict_get p ''skills'' PNone)"
    by (rule match_cong)
      (auto simp: that project_skills_ignores_required project_roles_skills_update)
  have b: "match_user_to_project cs u (p(''skills'' := p ''required_skills''))
             = match_user_to_project cs u p"
    if "\<not> truthy (dict_get p ''skills'' PNone)"
    by (rule match_cong)
      (auto simp: that project_skills_fallback_update project_roles_skills_update)
  have c: "match_user_to_project cs u (p(''roles'' := v)) = match_user_to_project cs u p"
    if "truthy (dict_get p ''required_roles'' (PList []))"
    by (rule match_cong)
      (auto simp: that project_roles_ignores_roles project_skills_roles_update)
  have d: "match_user_to_project cs u (p(''required_roles'' := p ''roles''))
             = match_user_to_project cs u p"
    if "\<not> truthy (dict_get p ''required_roles'' (PList []))"
    by (rule match_cong)
      (auto simp: that project_roles_fallback_update project_skills_roles_update)
  show ?thesis
    using a b c d match_skills_source [of cs u p m]
    by (auto simp: project_skills_truthy project_skills_fallback)
qed

theorem project_skills_precedence_witness:
  "truthy (dict_get project_both ''skills'' PNone)
   \<and> match_user_to_project cosine_half user_py_react project_both = Inr match_py_react
   \<and> \<not> truthy (dict_get project_web ''skills'' PNone)
   \<and> match_user_to_project cosine_half user_py_react project_web = Inr match_py_react
   \<and> truthy (dict_get project_roles_both ''required_roles'' (PList []))
   \<and> match_user_to_project cosine_half user_backend project_roles_both = Inr match_backend
   \<and> \<not> truthy (dict_get project_web ''required_roles'' (PList []))
   \<and> match_user_to_project cosine_half user_backend project_web = Inr match_py"
  using
    project_skills_precedence [of project_both cosine_half user_py_react None match_py_react]
    project_skills_precedence [of project_web cosine_half user_py_react None match_py_react]
    project_skills_precedence [of project_roles_both cosine_half user_backend None match_backend]
    project_skills_precedence [of project_web cosine_half user_backend None match_py]
  by (simp add: example_truthiness match_project_both match_project_web_skills match_project_roles_both match_project_web_roles)

section \<open>Embeddings\<close>

lemma ensure_fitted_idle: "fitted e \<Longrightarrow> ensure_fitted X e texts = (Inr (), e)"
  by (simp add: ensure_fitted_def)

lemma encode_text_fitted:
  "fitted e \<Longrightarrow>
     encode_text X e t =
       (case transform X (vectorizer e) t of
          Inl err \<Rightarrow> Inl err
        | Inr vec \<Rightarrow> Inr (pad_or_cut (embedding_dim e) vec), e)"
  by (simp add: encode_text_def split: sum.splits)

lemma run_call_fitted: "fitted e \<Longrightarrow> run_call X e c = e"
  by (cases c)
    (simp_all add: ensure_fitted_idle encode_text_fitted embed_profile_def embed_project_def
       split: sum.splits)

lemma run_calls_fitted: "fitted e \<Longrightarrow> run_calls X e calls = e"
  unfolding run_calls_def by (induction calls) (simp_all add: run_call_fitted)

lemma encode_text_success_fitted:
  "encode_text X e t = (Inr v, e') \<Longrightarrow> fitted e'"
  by (auto simp: encode_text_def ensure_fitted_def Let_def
        split: if_splits prod.splits option.splits sum.splits)

text \<open>
  Claim C9: on an engine whose vocabulary has been fitted, encoding a text leaves the
  engine as it is and encoding the same text again gives the same result; whatever calls
  are made in between, the vectorizer is the same afterwards and is never fitted again. (A
  first encoding that succeeds leaves the engine fitted, see \<open>encode_text_success_fitted\<close>.)
  The library's \<open>transform\<close> is a function of the fitted vectorizer and the text.
\<close>

theorem embedding_deterministic:
  assumes "fitted e"
  shows "snd (encode_text X e t) = e
         \<and> fst (encode_text X (snd (encode_text X e t)) t) = fst (encode_text X e t)
         \<and> run_calls X e calls = e
         \<and> vectorizer (run_calls X e calls) = vectorizer e
         \<and> fitted (run_calls X e calls)
         \<and> fst (encode_text X (run_calls X e calls) t) = fst (encode_text X e t)"
  using assms by (simp add: run_calls_fitted encode_text_fitted)

lemma toy_first_embedding:
  "encode_text toy_externals (new_engine []) ''python''
     = (Inr (1 # replicate 383 0),
        \<lparr> vectorizer = [''python''], embedding_dim = 384, fitted = True, corpus = [''python''] \<rparr>)"
  by (simp add: encode_text_def ensure_fitted_def toy_externals_def new_engine_def DEFAULT_DIM_def
        pad_or_cut_def)

theorem embedding_deterministic_witness:
  "fitted (snd (encode_text toy_externals (new_engine []) ''python''))
   \<and> vectorizer (run_calls toy_externals (snd (encode_text toy_externals (new_engine []) ''python''))
        [EncodeText ''react'', EnsureFitted [''django'', ''react'']]) = [''python'']
   \<and> fst (encode_text toy_externals
        (run_calls toy_externals (snd (encode_text toy_externals (new_engine []) ''python''))
           [EncodeText ''react'', EnsureFitted [''django'', ''react'']]) ''python'')
       = Inr (1 # replicate 383 0)"
proof -
  let ?e = "snd (encode_text toy_externals (new_engine []) ''python'')"
  have f: "fitted ?e"
    by (simp add: toy_first_embedding)
  have v: "vectorizer ?e = [''python'']"
    by (simp add: toy_first_embedding)
  have r: "fst (encode_text toy_externals ?e ''python'') = Inr (1 # replicate 383 0)"
    unfolding toy_first_embedding
    by (simp add: encode_text_def toy_externals_def pad_or_cut_def)
  show ?thesis
    using embedding_deterministic
            [OF f, where X = toy_externals and t = "''python''"
               and calls = "[EncodeText ''react'', EnsureFitted [''django'', ''react'']]"] f v r
    by simp
qed

lemma try_except_Inr: "\<exists>v. try_except r (\<lambda>e. Inr (d :: 'a)) = Inr v"
  by (cases r) (simp_all add: try_except_def)

text \<open>
  Claim C7: \<open>ensure_embedding\<close> always returns a vector and never an error: without an
  embedding engine, and whenever generating the embedding raises, it returns the filler
  vector of 384 entries 0.1.
\<close>

theorem ensure_embedding_never_raises:
  "(\<exists>v. fst (ensure_embedding X eng d kind) = Inr v)
   \<and> fst (ensure_embedding X None d kind) = Inr filler
   \<and> (kind = ''profile'' \<and> fst (embed_profile X e d) = Inl err \<longrightarrow>
        fst (ensure_embedding X (Some e) d kind) = Inr filler)
   \<and> (kind \<noteq> ''profile'' \<and> fst (embed_project X e d) = Inl err \<longrightarrow>
        fst (ensure_embedding X (Some e) d kind) = Inr filler)
   \<and> filler = replicate 384 0.1"
proof -
  have "\<exists>v. fst (ensure_embedding X eng d kind) = Inr v"
    by (cases eng) (auto simp: ensure_embedding_def try_except_Inr split: prod.splits)
  then show ?thesis
    by (auto simp: ensure_embedding_def try_except_def filler_def split: prod.splits)
qed

lemma failing_embed:
  "fst (embed_profile failing_externals (new_engine []) profile_with_embedding) = Inl LibraryError"
  "fst (embed_project failing_externals (new_engine []) profile_with_embedding) = Inl LibraryError"
  by (simp_all add: embed_profile_def embed_project_def encode_text_def ensure_fitted_def
        failing_externals_def toy_externals_def new_engine_def)

theorem ensure_embedding_never_raises_witness:
  "fst (embed_profile failing_externals (new_engine []) profile_with_embedding) = Inl LibraryError
   \<and> fst (ensure_embedding failing_externals (Some (new_engine [])) profile_with_embedding
           ''profile'') = Inr filler
   \<and> fst (embed_project failing_externals (new_engine []) profile_with_embedding) = Inl LibraryError
   \<and> fst (ensure_embedding failing_externals (Some (new_engine [])) profile_with_embedding
           ''target'') = Inr filler"
  using ensure_embedding_never_raises
          [of failing_externals "Some (new_engine [])" profile_with_embedding "''profile''"
             "new_engine []" LibraryError]
        ensure_embedding_never_raises
          [of failing_externals "Some (new_engine [])" profile_with_embedding "''target''"
             "new_engine []" LibraryError]
        failing_embed
  by simp

text \<open>
  Claim C6 does not hold of the code: \<open>ensure_embedding\<close> never looks at the record's
  \<open>embedding\<close> field. For a profile that carries the embedding \<open>[0.25, 0.75]\<close> it returns
  the vector the engine computes, not the one in the record.
\<close>

theorem ensure_embedding_recomputes:
  "dict_get profile_with_embedding ''embedding'' PNone = PList [PNum 0.25, PNum 0.75]
   \<and> fst (ensure_embedding toy_externals (Some (new_engine [])) profile_with_embedding ''profile'')
       = Inr (1 # replicate 383 0)"
  by (simp add: ensure_embedding_def embed_profile_def encode_text_def ensure_fitted_def
        toy_externals_def new_engine_def DEFAULT_DIM_def pad_or_cut_def try_except_def
        profile_with_embedding_def dict_get_def)

end
